theory Spec2Isabelle
  imports Complex_Main "HOL-Library.AList" "HOL-Library.Sublist"
begin

section \<open>Python values, exceptions and the library calls the server makes\<close>

text \<open>
  The server (\<^verbatim>\<open>weather/contrib/ecowittdirect/server.py\<close>) works on values decoded from
  JSON and on the dictionaries \<^verbatim>\<open>weather\<close>, \<^verbatim>\<open>raw\<close> and \<^verbatim>\<open>serverstats\<close>.  A value is one
  of the shapes \<^verbatim>\<open>json\<close> produces.  A dictionary is an association list in insertion
  order, with string keys; a lookup finds the entry \<open>map_of\<close> finds.
  Characters are 8-bit, so \<^verbatim>\<open>\d\<close> of the regular expression is \<^verbatim>\<open>0\<close>..\<^verbatim>\<open>9\<close>.

  Numbers: a Python \<^verbatim>\<open>int\<close> is an \<open>int\<close>.  A Python \<^verbatim>\<open>float\<close> is a double: a finite
  value, an infinity or NaN.  A finite double is written as the real number it denotes,
  and an operation on finite doubles gives the exact result when that is within the
  range of doubles, and an infinity when it is not: the overflow of doubles is part of
  the model, their rounding and the sign of zero are not.
\<close>

datatype dbl = Fin real | PosInf | NegInf | NaN

text \<open>An exact result of magnitude \<open>2^1024 - 2^970\<close> or more rounds to an infinity.\<close>

definition dbl_limit :: real where
  "dbl_limit = 2 ^ 1024 - 2 ^ 970"

definition fl :: "real \<Rightarrow> dbl" where
  "fl x = (if dbl_limit \<le> x then PosInf else if x \<le> - dbl_limit then NegInf else Fin x)"

definition inf_of :: "bool \<Rightarrow> dbl" where
  "inf_of positive = (if positive then PosInf else NegInf)"

fun dbl_neg :: "dbl \<Rightarrow> dbl" where
  "dbl_neg (Fin a) = Fin (- a)"
| "dbl_neg PosInf = NegInf"
| "dbl_neg NegInf = PosInf"
| "dbl_neg NaN = NaN"

fun dbl_add :: "dbl \<Rightarrow> dbl \<Rightarrow> dbl" where
  "dbl_add (Fin a) (Fin b) = fl (a + b)"
| "dbl_add NaN y = NaN"
| "dbl_add x NaN = NaN"
| "dbl_add PosInf NegInf = NaN"
| "dbl_add NegInf PosInf = NaN"
| "dbl_add PosInf y = PosInf"
| "dbl_add x PosInf = PosInf"
| "dbl_add NegInf y = NegInf"
| "dbl_add x NegInf = NegInf"

definition dbl_sub :: "dbl \<Rightarrow> dbl \<Rightarrow> dbl" where
  "dbl_sub x y = dbl_add x (dbl_neg y)"

fun dbl_mul :: "dbl \<Rightarrow> dbl \<Rightarrow> dbl" where
  "dbl_mul (Fin a) (Fin b) = fl (a * b)"
| "dbl_mul NaN y = NaN"
| "dbl_mul x NaN = NaN"
| "dbl_mul PosInf (Fin b) = (if b = 0 then NaN else inf_of (0 < b))"
| "dbl_mul NegInf (Fin b) = (if b = 0 then NaN else inf_of (b < 0))"
| "dbl_mul (Fin a) PosInf = (if a = 0 then NaN else inf_of (0 < a))"
| "dbl_mul (Fin a) NegInf = (if a = 0 then NaN else inf_of (a < 0))"
| "dbl_mul PosInf PosInf = PosInf"
| "dbl_mul NegInf NegInf = PosInf"
| "dbl_mul PosInf NegInf = NegInf"
| "dbl_mul NegInf PosInf = NegInf"

text \<open>The quotient by a divisor that is not zero; a zero divisor is dealt with before
  the quotient is taken (\<open>float_div\<close>, \<open>steadman_spec\<close>).\<close>

fun dbl_quot :: "dbl \<Rightarrow> dbl \<Rightarrow> dbl" where
  "dbl_quot (Fin a) (Fin b) = fl (a / b)"
| "dbl_quot NaN y = NaN"
| "dbl_quot x NaN = NaN"
| "dbl_quot PosInf (Fin b) = inf_of (0 < b)"
| "dbl_quot NegInf (Fin b) = inf_of (b < 0)"
| "dbl_quot (Fin a) y = Fin 0"
| "dbl_quot x y = NaN"

text \<open>The exponential of IEEE arithmetic: an overflow gives an infinity.\<close>

fun dbl_exp :: "dbl \<Rightarrow> dbl" where
  "dbl_exp (Fin x) = fl (exp x)"
| "dbl_exp PosInf = PosInf"
| "dbl_exp NegInf = Fin 0"
| "dbl_exp NaN = NaN"

datatype pyval =
    PNone
  | PBool bool
  | PInt int
  | PFloat dbl
  | PStr string
  | PList "pyval list"
  | PDict "(string \<times> pyval) list"

datatype error =
    TypeError
  | ValueError
  | KeyError
  | AttributeError
  | ZeroDivisionError
  | OverflowError

text \<open>
  A raised exception ends the statements that follow it: \<open>bind_err r f\<close> runs \<open>f\<close> on
  the value of \<open>r\<close>, or passes the exception of \<open>r\<close> on.
\<close>

definition bind_err :: "error + 'a \<Rightarrow> ('a \<Rightarrow> error + 'b) \<Rightarrow> error + 'b" where
  "bind_err r f = (case r of Inl err \<Rightarrow> Inl err | Inr x \<Rightarrow> f x)"

text \<open>
  Library functions whose results the server only passes on are parameters of the model:
  the parsers behind \<^verbatim>\<open>float(str)\<close> and \<^verbatim>\<open>int(str)\<close> (\<open>None\<close> where Python raises
  \<^verbatim>\<open>ValueError\<close>), \<^verbatim>\<open>json.dumps\<close>, the \<^verbatim>\<open>%s\<close> rendering of a value, and the rendering of
  \<^verbatim>\<open>datetime.fromtimestamp\<close> and \<^verbatim>\<open>datetime.utcfromtimestamp\<close>.
\<close>

record pylib =
  float_of_str :: "string \<Rightarrow> dbl option"
  int_of_str :: "string \<Rightarrow> int option"
  json_dumps :: "pyval \<Rightarrow> string"
  percent_s :: "pyval \<Rightarrow> string"
  fromtimestamp :: "real \<Rightarrow> string"
  utcfromtimestamp :: "real \<Rightarrow> string"

text \<open>\<^verbatim>\<open>int(x)\<close> of a finite float truncates toward zero.\<close>

definition py_trunc :: "real \<Rightarrow> int" where
  "py_trunc r = (if 0 \<le> r then \<lfloor>r\<rfloor> else \<lceil>r\<rceil>)"

text \<open>\<^verbatim>\<open>float(v)\<close>.  An \<^verbatim>\<open>int\<close> too large for a double raises \<^verbatim>\<open>OverflowError\<close>.\<close>

fun py_float :: "pylib \<Rightarrow> pyval \<Rightarrow> error + dbl" where
  "py_float L PNone = Inl TypeError"
| "py_float L (PBool b) = Inr (Fin (if b then 1 else 0))"
| "py_float L (PInt n) =
     (if dbl_limit \<le> \<bar>of_int n\<bar> then Inl OverflowError else Inr (Fin (of_int n)))"
| "py_float L (PFloat d) = Inr d"
| "py_float L (PStr s) = (case float_of_str L s of None \<Rightarrow> Inl ValueError | Some d \<Rightarrow> Inr d)"
| "py_float L (PList xs) = Inl TypeError"
| "py_float L (PDict d) = Inl TypeError"

text \<open>\<^verbatim>\<open>int(v)\<close>.  An infinity raises \<^verbatim>\<open>OverflowError\<close>, NaN raises \<^verbatim>\<open>ValueError\<close>.\<close>

fun py_int :: "pylib \<Rightarrow> pyval \<Rightarrow> error + int" where
  "py_int L PNone = Inl TypeError"
| "py_int L (PBool b) = Inr (if b then 1 else 0)"
| "py_int L (PInt n) = Inr n"
| "py_int L (PFloat (Fin r)) = Inr (py_trunc r)"
| "py_int L (PFloat PosInf) = Inl OverflowError"
| "py_int L (PFloat NegInf) = Inl OverflowError"
| "py_int L (PFloat NaN) = Inl ValueError"
| "py_int L (PStr s) = (case int_of_str L s of None \<Rightarrow> Inl ValueError | Some n \<Rightarrow> Inr n)"
| "py_int L (PList xs) = Inl TypeError"
| "py_int L (PDict d) = Inl TypeError"

text \<open>
  \<^verbatim>\<open>math.exp(x)\<close> raises \<^verbatim>\<open>OverflowError\<close> when \<open>x\<close> is finite and the result is beyond
  the range of doubles; of an infinity or NaN it returns what IEEE arithmetic gives.
\<close>

fun math_exp :: "dbl \<Rightarrow> error + dbl" where
  "math_exp (Fin x) = (if dbl_limit \<le> exp x then Inl OverflowError else Inr (Fin (exp x)))"
| "math_exp d = Inr (dbl_exp d)"

text \<open>Float division \<^verbatim>\<open>a / b\<close>: a zero divisor raises \<^verbatim>\<open>ZeroDivisionError\<close>.\<close>

definition float_div :: "dbl \<Rightarrow> dbl \<Rightarrow> error + dbl" where
  "float_div a b = (if b = Fin 0 then Inl ZeroDivisionError else Inr (dbl_quot a b))"

text \<open>True division \<^verbatim>\<open>a / b\<close> of two \<^verbatim>\<open>int\<close>s: a float, or \<^verbatim>\<open>OverflowError\<close> when the
  quotient is too large for one.\<close>

definition int_truediv :: "int \<Rightarrow> int \<Rightarrow> error + dbl" where
  "int_truediv a b =
     (if b = 0 then Inl ZeroDivisionError
      else if dbl_limit \<le> \<bar>of_int a / of_int b :: real\<bar> then Inl OverflowError
      else Inr (Fin (of_int a / of_int b)))"

text \<open>
  \<^verbatim>\<open>round(v, 1)\<close>: a string, \<^verbatim>\<open>None\<close>, a list and a dictionary define no
  \<^verbatim>\<open>__round__\<close>, so the call raises \<^verbatim>\<open>TypeError\<close>; an \<^verbatim>\<open>int\<close> (and a \<^verbatim>\<open>bool\<close>) rounds to
  itself as an \<^verbatim>\<open>int\<close>; a finite float rounds to one decimal, ties to even; an infinity
  and NaN round to themselves.
\<close>

definition round_half_even :: "real \<Rightarrow> int" where
  "round_half_even x =
     (let f = \<lfloor>x\<rfloor>; d = x - of_int f
      in if d < 1 / 2 then f else if 1 / 2 < d then f + 1 else if even f then f else f + 1)"

fun py_round1 :: "pyval \<Rightarrow> error + pyval" where
  "py_round1 PNone = Inl TypeError"
| "py_round1 (PBool b) = Inr (PInt (if b then 1 else 0))"
| "py_round1 (PInt n) = Inr (PInt n)"
| "py_round1 (PFloat (Fin r)) = Inr (PFloat (Fin (of_int (round_half_even (r * 10)) / 10)))"
| "py_round1 (PFloat d) = Inr (PFloat d)"
| "py_round1 (PStr s) = Inl TypeError"
| "py_round1 (PList xs) = Inl TypeError"
| "py_round1 (PDict d) = Inl TypeError"

section \<open>The cleaning function and the apparent temperature\<close>

text \<open>
  \<^verbatim>\<open>re.sub(r'[^\d.]+', '', val)\<close>: scanning from the left, every maximal run of
  characters that are neither a digit nor a dot is replaced by the empty string.
\<close>

definition digit_or_dot :: "char \<Rightarrow> bool" where
  "digit_or_dot c = (c \<in> set ''0123456789.'')"

function re_sub_strip :: "string \<Rightarrow> string" where
  "re_sub_strip [] = []"
| "re_sub_strip (c # cs) =
     (if digit_or_dot c then c # re_sub_strip cs
      else re_sub_strip (dropWhile (\<lambda>x. \<not> digit_or_dot x) cs))"
  by pat_completeness auto
termination
  by (relation "measure length") (auto simp: length_dropWhile_le less_Suc_eq_le)

text \<open>
  \<^verbatim>\<open>def getval(val): return round(re.sub(r'[^\d.]+', '', val), 1)\<close>.
  \<^verbatim>\<open>re.sub\<close> raises \<^verbatim>\<open>TypeError\<close> on anything but a string; its result, a string, goes to
  \<^verbatim>\<open>round\<close> as it is.
\<close>

fun getval :: "pyval \<Rightarrow> error + pyval" where
  "getval (PStr s) = py_round1 (PStr (re_sub_strip s))"
| "getval v = Inl TypeError"

text \<open>
  \<^verbatim>\<open>app_temp(temp, humidity, wind)\<close>, statement by statement: the three conversions in
  the source's order, then \<^verbatim>\<open>wind_ms\<close>, then \<^verbatim>\<open>e\<close> with its operands from left to right
  (\<^verbatim>\<open>humi_int / 100\<close>, a division of two \<^verbatim>\<open>int\<close>s, before the quotient in the exponent and
  \<^verbatim>\<open>math.exp\<close>), then the result.
\<close>

definition app_temp :: "pylib \<Rightarrow> pyval \<Rightarrow> pyval \<Rightarrow> pyval \<Rightarrow> error + dbl" where
  "app_temp L temp humidity wind =
     bind_err (py_float L wind) (\<lambda>wind_float.
     bind_err (py_float L temp) (\<lambda>temp_float.
     bind_err (py_int L humidity) (\<lambda>humi_int.
     bind_err (float_div wind_float (Fin 3.6)) (\<lambda>wind_ms.
     bind_err (int_truediv humi_int 100) (\<lambda>h.
     bind_err (float_div (dbl_mul (Fin 17.27) temp_float) (dbl_add (Fin 237.7) temp_float)) (\<lambda>q.
     bind_err (math_exp q) (\<lambda>x.
     let e = dbl_mul (dbl_mul h (Fin 6.105)) x in
     Inr (dbl_sub (dbl_sub (dbl_add temp_float (dbl_mul (Fin 0.33) e))
                           (dbl_mul (Fin 0.70) wind_ms))
                  (Fin 4.00)))))))))"


section \<open>The observation record\<close>

text \<open>
  The global \<^verbatim>\<open>weather\<close> is a dictionary; \<^verbatim>\<open>clearweather()\<close> binds it to a fresh one with
  the twenty canonical keys.  \<^verbatim>\<open>weather[k] = v\<close> replaces the value of a key in place, or
  appends the key; \<^verbatim>\<open>weather[k]\<close> raises \<^verbatim>\<open>KeyError\<close> on a key that is not there.
\<close>

type_synonym store = "(string \<times> pyval) list"

definition clearweather :: store where
  "clearweather =
     [(''dt'', PInt 0),
      (''temperature'', PNone), (''humidity'', PNone), (''pressure'', PNone),
      (''feels_like'', PNone), (''app_temp'', PNone),
      (''wind_speed'', PNone), (''wind_deg'', PNone), (''wind_gust'', PNone),
      (''rain_1h'', PFloat (Fin 0)), (''rain_24h'', PFloat (Fin 0)),
      (''solar'', PFloat (Fin 0)), (''uvi'', PInt 0),
      (''inside_temp'', PNone), (''inside_humidity'', PNone),
      (''pm25'', PNone), (''pm25aqi'', PNone), (''pm10'', PNone), (''pm10aqi'', PNone),
      (''co2'', PNone)]"

definition getitem :: "store \<Rightarrow> string \<Rightarrow> error + pyval" where
  "getitem d k = (case map_of d k of None \<Rightarrow> Inl KeyError | Some v \<Rightarrow> Inr v)"

definition OBSERVATION_MAP :: "(string \<times> string) list" where
  "OBSERVATION_MAP =
     [(''0x02'', ''temperature''),
      (''0x07'', ''humidity''),
      (''0x03'', ''dewpoint''),
      (''0x04'', ''windchill''),
      (''0x05'', ''heatindex''),
      (''0x0A'', ''wind_deg''),
      (''0x0B'', ''wind_speed''),
      (''0x0C'', ''wind_gust''),
      (''0x0E'', ''rain_1h''),
      (''0x10'', ''rain_24h''),
      (''0x15'', ''solar''),
      (''0x16'', ''uvi''),
      (''0x17'', ''uvi'')]"

definition WH25_MAP :: "(string \<times> string) list" where
  "WH25_MAP =
     [(''intemp'', ''inside_temp''),
      (''inhumi'', ''inside_humidity''),
      (''abs'', ''pressure'')]"

definition CO2_MAP :: "(string \<times> string) list" where
  "CO2_MAP =
     [(''PM25'', ''pm25''),
      (''PM25_RealAQI'', ''pm25aqi''),
      (''PM10'', ''pm10''),
      (''PM10_RealAQI'', ''pm10aqi''),
      (''CO2'', ''co2'')]"

section \<open>Operations on decoded JSON\<close>

text \<open>\<^verbatim>\<open>k in v\<close> for a string \<open>k\<close>: a key test on a dictionary, a membership test on a
  list, a substring test on a string; other values are not iterable.\<close>

fun py_contains :: "string \<Rightarrow> pyval \<Rightarrow> error + bool" where
  "py_contains k (PDict d) = Inr (map_of d k \<noteq> None)"
| "py_contains k (PList xs) = Inr (PStr k \<in> set xs)"
| "py_contains k (PStr s) = Inr (sublist k s)"
| "py_contains k v = Inl TypeError"

text \<open>\<^verbatim>\<open>v[k]\<close> for a string \<open>k\<close>: only a dictionary takes a string subscript.\<close>

fun py_subscript :: "pyval \<Rightarrow> string \<Rightarrow> error + pyval" where
  "py_subscript (PDict d) k = getitem d k"
| "py_subscript v k = Inl TypeError"

text \<open>\<^verbatim>\<open>for x in v\<close>: the elements of a list, the keys of a dictionary, the characters of
  a string.\<close>

fun py_iter :: "pyval \<Rightarrow> error + pyval list" where
  "py_iter (PList xs) = Inr xs"
| "py_iter (PDict d) = Inr (map (\<lambda>kv. PStr (fst kv)) d)"
| "py_iter (PStr s) = Inr (map (\<lambda>c. PStr [c]) s)"
| "py_iter v = Inl TypeError"

text \<open>\<^verbatim>\<open>v.items()\<close>: only a dictionary has the method.\<close>

fun py_items :: "pyval \<Rightarrow> error + (string \<times> pyval) list" where
  "py_items (PDict d) = Inr d"
| "py_items v = Inl AttributeError"

text \<open>\<^verbatim>\<open>v in TABLE\<close> for one of the three code tables, with the name the table gives:
  a list or a dictionary is unhashable, and a hashable value that is not a string equals
  no key.\<close>

fun table_lookup :: "(string \<times> string) list \<Rightarrow> pyval \<Rightarrow> error + string option" where
  "table_lookup tab (PStr s) = Inr (map_of tab s)"
| "table_lookup tab (PList xs) = Inl TypeError"
| "table_lookup tab (PDict d) = Inl TypeError"
| "table_lookup tab v = Inr None"

section \<open>The mapping pass of \<^verbatim>\<open>fetchWeather\<close>\<close>

text \<open>
  Lines 236 to 260 of the source: \<^verbatim>\<open>clearweather()\<close>, then one \<^verbatim>\<open>try\<close> block holding the
  timestamp, the four category loops and the apparent temperature, and one bare
  \<^verbatim>\<open>except\<close> after it.

  The pass updates the shared record in place, one key at a time.  The state threaded
  through it is the record as it is now, together with the records it has been earlier
  in the pass, most recent first: what a reader of the global could have found.
\<close>

type_synonym trail = "store \<times> store list"

datatype outcome = Done trail | Raised error trail

definition assign :: "string \<Rightarrow> pyval \<Rightarrow> trail \<Rightarrow> trail" where
  "assign k v t = (AList.update k v (fst t), fst t # snd t)"

definition and_then :: "outcome \<Rightarrow> (trail \<Rightarrow> outcome) \<Rightarrow> outcome" where
  "and_then r f = (case r of Done t \<Rightarrow> f t | Raised err t \<Rightarrow> Raised err t)"

text \<open>A value computed from the record as it stands: an exception leaves the record as
  it is.\<close>

definition eval_then :: "error + 'a \<Rightarrow> trail \<Rightarrow> ('a \<Rightarrow> outcome) \<Rightarrow> outcome" where
  "eval_then r t f = (case r of Inl err \<Rightarrow> Raised err t | Inr x \<Rightarrow> f x)"

fun for_each :: "('a \<Rightarrow> trail \<Rightarrow> outcome) \<Rightarrow> 'a list \<Rightarrow> trail \<Rightarrow> outcome" where
  "for_each body [] t = Done t"
| "for_each body (x # xs) t = and_then (body x t) (for_each body xs)"

text \<open>
  The body of the loops over \<^verbatim>\<open>raw["common_list"]\<close> and \<^verbatim>\<open>raw["rain"]\<close>:
  \<^verbatim>\<open>if observation["id"] in OBSERVATION_MAP:
       weather[OBSERVATION_MAP[observation["id"]]] = getval(observation["val"])\<close>
  (the second loop writes \<^verbatim>\<open>OBSERVATION_MAP.get(...)\<close>, the same name for a key that is
  in the table).  The right-hand side is evaluated before the store.  The cleaning
  function is the parameter \<open>gv\<close>; the program's pass is the instance at \<open>getval\<close>.
\<close>

definition map_observation :: "(pyval \<Rightarrow> error + pyval) \<Rightarrow> pyval \<Rightarrow> trail \<Rightarrow> outcome" where
  "map_observation gv observation t =
     eval_then (py_subscript observation ''id'') t (\<lambda>i.
     eval_then (table_lookup OBSERVATION_MAP i) t (\<lambda>name.
     case name of
       None \<Rightarrow> Done t
     | Some field \<Rightarrow>
         eval_then (py_subscript observation ''val'') t (\<lambda>v.
         eval_then (gv v) t (\<lambda>x.
         Done (assign field x t)))))"

text \<open>
  The body of the inner loops over \<^verbatim>\<open>wh25_values.items()\<close> and \<^verbatim>\<open>co2_values.items()\<close>:
  \<^verbatim>\<open>if wh25_id in WH25_MAP: weather[WH25_MAP.get(wh25_id)] = getval(wh25_value)\<close>.
\<close>

definition map_pair ::
  "(string \<times> string) list \<Rightarrow> (pyval \<Rightarrow> error + pyval) \<Rightarrow> string \<times> pyval \<Rightarrow> trail \<Rightarrow> outcome" where
  "map_pair tab gv kv t =
     (case map_of tab (fst kv) of
        None \<Rightarrow> Done t
      | Some field \<Rightarrow> eval_then (gv (snd kv)) t (\<lambda>x. Done (assign field x t)))"

definition map_values ::
  "(string \<times> string) list \<Rightarrow> (pyval \<Rightarrow> error + pyval) \<Rightarrow> pyval \<Rightarrow> trail \<Rightarrow> outcome" where
  "map_values tab gv vals t =
     eval_then (py_items vals) t (\<lambda>kvs. for_each (map_pair tab gv) kvs t)"

text \<open>\<^verbatim>\<open>if key in raw: for x in raw[key]: body\<close>.\<close>

definition map_category ::
  "string \<Rightarrow> (pyval \<Rightarrow> trail \<Rightarrow> outcome) \<Rightarrow> pyval \<Rightarrow> trail \<Rightarrow> outcome" where
  "map_category key body r t =
     eval_then (py_contains key r) t (\<lambda>present.
     if present then
       eval_then (py_subscript r key) t (\<lambda>xs.
       eval_then (py_iter xs) t (\<lambda>items.
       for_each body items t))
     else Done t)"

text \<open>Line 257:
  \<^verbatim>\<open>weather["app_temp"] = app_temp(weather["temperature"], weather["humidity"], weather["wind_speed"])\<close>.\<close>

definition assign_app_temp :: "pylib \<Rightarrow> trail \<Rightarrow> outcome" where
  "assign_app_temp L t =
     eval_then (getitem (fst t) ''temperature'') t (\<lambda>temp.
     eval_then (getitem (fst t) ''humidity'') t (\<lambda>humidity.
     eval_then (getitem (fst t) ''wind_speed'') t (\<lambda>wind.
     eval_then (app_temp L temp humidity wind) t (\<lambda>a.
     Done (assign ''app_temp'' (PFloat a) t)))))"

text \<open>The statements of the \<^verbatim>\<open>try\<close> block after the timestamp, in order: the four
  category loops, then the apparent temperature.\<close>

definition map_categories :: "(pyval \<Rightarrow> error + pyval) \<Rightarrow> pyval \<Rightarrow> trail \<Rightarrow> outcome" where
  "map_categories gv r t =
     and_then (map_category ''common_list'' (map_observation gv) r t) (\<lambda>t.
     and_then (map_category ''rain'' (map_observation gv) r t) (\<lambda>t.
     and_then (map_category ''wh25'' (map_values WH25_MAP gv) r t) (\<lambda>t.
     map_category ''co2'' (map_values CO2_MAP gv) r t)))"

definition map_fields :: "pylib \<Rightarrow> (pyval \<Rightarrow> error + pyval) \<Rightarrow> pyval \<Rightarrow> trail \<Rightarrow> outcome" where
  "map_fields L gv r t = and_then (map_categories gv r t) (assign_app_temp L)"

text \<open>The bare \<^verbatim>\<open>except\<close>: whatever was raised, the pass ends with the record as it is.\<close>

definition caught :: "outcome \<Rightarrow> trail" where
  "caught r = (case r of Done t \<Rightarrow> t | Raised err t \<Rightarrow> t)"

definition map_pass_with ::
  "pylib \<Rightarrow> (pyval \<Rightarrow> error + pyval) \<Rightarrow> pyval \<Rightarrow> real \<Rightarrow> trail" where
  "map_pass_with L gv r lasttime =
     caught (map_fields L gv r (assign ''dt'' (PInt (py_trunc lasttime)) (clearweather, [])))"

definition map_pass :: "pylib \<Rightarrow> pyval \<Rightarrow> real \<Rightarrow> trail" where
  "map_pass L r lasttime = map_pass_with L getval r lasttime"

text \<open>The records the global \<^verbatim>\<open>weather\<close> holds one after the other while a pass runs on
  top of the record \<open>prev\<close> of the cycle before, oldest first.\<close>

definition records_during :: "store \<Rightarrow> trail \<Rightarrow> store list" where
  "records_during prev t = prev # rev (snd t) @ [fst t]"

section \<open>Configuration and shared state\<close>

text \<open>The values read from the configuration file that the modelled code uses.\<close>

record config =
  ECOWAIT :: int
  ECOIP :: string
  TIMEOUT :: string
  INFLUX :: bool
  IFIELD :: string

definition BUILD :: string where
  "BUILD = ''0.0.1''"

definition URL :: "config \<Rightarrow> string" where
  "URL cfg = ''http://'' @ ECOIP cfg @ ''/get_livedata_info''"

text \<open>The dictionary \<^verbatim>\<open>serverstats\<close>; \<^verbatim>\<open>mem\<close> is a key only once \<^verbatim>\<open>/stats\<close> has been
  requested.\<close>

record serverstats =
  LocalWeather :: string
  gets :: int
  errors :: int
  timeout :: int
  uri :: "(string \<times> int) list"
  ts :: int
  start :: int
  clear :: int
  influxdb :: int
  influxdberrors :: int
  mem :: "int option"

text \<open>The globals both threads use.\<close>

record server =
  weather :: store
  raw :: pyval
  LOADED :: bool
  stats :: serverstats

text \<open>The state after the module has been loaded at time \<open>now\<close>: \<^verbatim>\<open>clearweather()\<close> has run
  once (line 212), and the three calls of \<^verbatim>\<open>int(time.time())\<close> fell into the same second.\<close>

definition loaded_module :: "int \<Rightarrow> server" where
  "loaded_module now =
     \<lparr>weather = clearweather, raw = PDict [], LOADED = False,
      stats = \<lparr>LocalWeather = BUILD, gets = 0, errors = 0, timeout = 0, uri = [],
               ts = now, start = now, clear = now, influxdb = 0, influxdberrors = 0,
               mem = None\<rparr>\<rparr>"

section \<open>One poll cycle of \<^verbatim>\<open>fetchWeather\<close>\<close>

text \<open>
  \<^verbatim>\<open>response = requests.get(URL)\<close>: the call names the URL and nothing else.  What
  \<^verbatim>\<open>requests.get\<close> does with a call is the library's documented behaviour: it returns
  the device's response, raises when the connection fails, and, when the device accepts
  the connection and sends nothing, raises once the call's timeout has passed, or waits
  without end when the call has none.  A response carries its status code and its body
  decoded by \<^verbatim>\<open>response.json()\<close>, \<open>None\<close> when that raises.
\<close>

record http_call =
  call_url :: string
  call_timeout :: "real option"

datatype device = Answers int "pyval option" | Unreachable | Silent

datatype fetched = Response int "pyval option" | FetchFailed | Hangs

definition requests_get :: "device \<Rightarrow> http_call \<Rightarrow> fetched" where
  "requests_get dev c =
     (case dev of
        Answers code body \<Rightarrow> Response code body
      | Unreachable \<Rightarrow> FetchFailed
      | Silent \<Rightarrow> (case call_timeout c of None \<Rightarrow> Hangs | Some secs \<Rightarrow> FetchFailed))"

definition fetch_call :: "config \<Rightarrow> http_call" where
  "fetch_call cfg = \<lparr>call_url = URL cfg, call_timeout = None\<rparr>"

text \<open>
  The InfluxDB client is outside the model: \<^verbatim>\<open>client.write_points\<close> returns true, returns
  false or raises, as the sink decides for the point it is given.
\<close>

record point =
  point_measurement :: string
  point_time :: int
  point_fields :: store

datatype written = WriteTrue | WriteFalse | WriteRaises

definition write_influx :: "config \<Rightarrow> (point \<Rightarrow> written) \<Rightarrow> real \<Rightarrow> server \<Rightarrow> server" where
  "write_influx cfg sink currentts s =
     (if INFLUX cfg then
        (case sink \<lparr>point_measurement = IFIELD cfg, point_time = py_trunc currentts,
                    point_fields = weather s\<rparr> of
           WriteTrue \<Rightarrow> s\<lparr>stats := (stats s)\<lparr>influxdb := influxdb (stats s) + 1\<rparr>\<rparr>
         | WriteFalse \<Rightarrow> s\<lparr>stats := (stats s)\<lparr>influxdberrors := influxdberrors (stats s) + 1\<rparr>\<rparr>
         | WriteRaises \<Rightarrow> s\<lparr>stats := (stats s)\<lparr>influxdberrors := influxdberrors (stats s) + 1\<rparr>\<rparr>)
      else s)"

text \<open>
  The body of \<^verbatim>\<open>if currentts >= nextupdate:\<close>, lines 232 to 298.  The result is \<open>None\<close>
  when the cycle never returns.  An exception of \<^verbatim>\<open>requests.get\<close> or of
  \<^verbatim>\<open>response.json()\<close> reaches the outer \<^verbatim>\<open>except\<close> before anything is assigned; a status
  other than 200 only writes to the log.
\<close>

definition poll_cycle ::
  "pylib \<Rightarrow> config \<Rightarrow> device \<Rightarrow> (point \<Rightarrow> written) \<Rightarrow> real \<Rightarrow> real \<Rightarrow> server \<Rightarrow> server option" where
  "poll_cycle L cfg dev sink currentts lasttime s =
     (case requests_get dev (fetch_call cfg) of
        Hangs \<Rightarrow> None
      | FetchFailed \<Rightarrow> Some s
      | Response status_code body \<Rightarrow>
          if status_code = 200 then
            (case body of
               None \<Rightarrow> Some s
             | Some r \<Rightarrow>
                 Some (write_influx cfg sink currentts
                   (s\<lparr>raw := r, weather := fst (map_pass L r lasttime), LOADED := True\<rparr>)))
          else Some s)"

text \<open>One turn of the \<^verbatim>\<open>while(running)\<close> loop before its \<^verbatim>\<open>time.sleep(5)\<close>, on the loop
  variable \<^verbatim>\<open>nextupdate\<close> and the shared state.\<close>

definition fetchWeather_turn ::
  "pylib \<Rightarrow> config \<Rightarrow> device \<Rightarrow> (point \<Rightarrow> written) \<Rightarrow> real \<Rightarrow> real \<Rightarrow> real \<times> server
     \<Rightarrow> (real \<times> server) option" where
  "fetchWeather_turn L cfg dev sink currentts lasttime ns =
     (if fst ns \<le> currentts then
        map_option (\<lambda>s. (currentts + 10 * of_int (ECOWAIT cfg), s))
          (poll_cycle L cfg dev sink currentts lasttime (snd ns))
      else Some ns)"

section \<open>The request handler \<^verbatim>\<open>do_GET\<close>\<close>

text \<open>\<^verbatim>\<open>str(n)\<close> of a length.\<close>

fun show_nat :: "nat \<Rightarrow> string" where
  "show_nat n =
     (if n < 10 then [char_of (48 + n)]
      else show_nat (n div 10) @ [char_of (48 + n mod 10)])"

text \<open>\<^verbatim>\<open>json.dumps(serverstats)\<close> is given the dictionary with its keys in insertion order.\<close>

definition stats_py :: "serverstats \<Rightarrow> pyval" where
  "stats_py st =
     PDict ([(''LocalWeather'', PStr (LocalWeather st)),
             (''gets'', PInt (gets st)),
             (''errors'', PInt (errors st)),
             (''timeout'', PInt (timeout st)),
             (''uri'', PDict (map (\<lambda>kn. (fst kn, PInt (snd kn))) (uri st))),
             (''ts'', PInt (ts st)),
             (''start'', PInt (start st)),
             (''clear'', PInt (clear st)),
             (''influxdb'', PInt (influxdb st)),
             (''influxdberrors'', PInt (influxdberrors st))]
            @ (case mem st of None \<Rightarrow> [] | Some m \<Rightarrow> [(''mem'', PInt m)]))"

text \<open>
  The branches that fill \<^verbatim>\<open>result\<close> do it one statement at a time,
  \<^verbatim>\<open>result[k] = weather[k']\<close>; the first lookup of a key that \<^verbatim>\<open>weather\<close> does not have
  raises \<^verbatim>\<open>KeyError\<close>.
\<close>

fun lookups :: "store \<Rightarrow> (string \<times> string) list \<Rightarrow> error + store" where
  "lookups w [] = Inr []"
| "lookups w (kk # rest) =
     bind_err (getitem w (snd kk)) (\<lambda>v.
     bind_err (lookups w rest) (\<lambda>result.
     Inr ((fst kk, v) # result)))"

definition dump_fields :: "pylib \<Rightarrow> server \<Rightarrow> (string \<times> string) list \<Rightarrow> error + string" where
  "dump_fields L s keys = bind_err (lookups (weather s) keys) (\<lambda>result. Inr (json_dumps L (PDict result)))"

text \<open>The page of the path \<^verbatim>\<open>/\<close>, built by the source's concatenations.\<close>

definition page_head :: string where
  \<open>page_head =
     ''<html>\<newline><head><meta http-equiv="refresh" content="5" />\<newline>''
     @ ''<style>p, td, th { font-family: Helvetica, Arial, sans-serif; font-size: 10px;}</style>\<newline>''
     @ ''<style>h1 { font-family: Helvetica, Arial, sans-serif; font-size: 20px;}</style>\<newline>''
     @ ''</head>\<newline><body>\<newline><h1>LocalWeather Server v'' @ BUILD @ ''</h1>\<newline>\<newline>''\<close>

definition page_row :: "pylib \<Rightarrow> string \<times> pyval \<Rightarrow> string" where
  \<open>page_row L kv =
     ''<tr><td align ="right">'' @ fst kv @ ''</td><td align ="right">'' @ percent_s L (snd kv)
     @ ''</td></tr>\<newline>''\<close>

definition page :: "pylib \<Rightarrow> config \<Rightarrow> real \<Rightarrow> server \<Rightarrow> error + string" where
  \<open>page L cfg now s =
     (let message =
        (if \<not> LOADED s then page_head @ ''<p>Error: No weather data available</p>''
         else page_head
              @ ''<table>\<newline><tr><th align ="right">Current</th><th align ="right">Value</th></tr>''
              @ concat (map (page_row L) (weather s))
              @ ''</table>\<newline>'')
      in bind_err (getitem (weather s) ''dt'') (\<lambda>dt.
         bind_err (py_int L dt) (\<lambda>n.
         Inr (message
              @ ''<p>Last data update: '' @ fromtimestamp L (of_int n)
              @ ''<br><font size=-2>From URL: '' @ URL cfg @ ''</font></p>''
              @ ''\<newline><p>Page refresh: '' @ fromtimestamp L now
              @ ''</p>\<newline></body>\<newline></html>''))))\<close>

text \<open>The paths the \<^verbatim>\<open>if\<close>/\<^verbatim>\<open>elif\<close> chain of \<^verbatim>\<open>do_GET\<close> names.\<close>

definition routes :: "string list" where
  "routes =
     [''/'', ''/stats'', ''/json'', ''/all'', ''/raw'', ''/time'', ''/temp'',
      ''/temperature'', ''/humidity'', ''/pressure'', ''/feels_like'', ''/app_temp'',
      ''/wind'', ''/solar'', ''/uvi'', ''/indoor'', ''/aqi'', ''/rain'', ''/precipitation'',
      ''/conditions'', ''/weather'']"

text \<open>
  The chain, lines 327 to 403: the content type, the message and \<^verbatim>\<open>serverstats\<close> as the
  chosen branch leaves them, or the exception the branch raises.  \<open>now\<close> is the branch's
  \<^verbatim>\<open>time.time()\<close>, \<open>maxrss\<close> its \<^verbatim>\<open>ru_maxrss\<close>.  In the five single-field paths
  \<^verbatim>\<open>self.path.split("/")[1]\<close> is the path without its slash.
\<close>

definition route ::
  "pylib \<Rightarrow> config \<Rightarrow> real \<Rightarrow> int \<Rightarrow> server \<Rightarrow> string \<Rightarrow> error + (string \<times> string \<times> serverstats)" where
  "route L cfg now maxrss s path =
     (let json = (\<lambda>m. Inr (''application/json'', m, stats s)) in
      if path = ''/'' then
        bind_err (page L cfg now s) (\<lambda>m. Inr (''text/html'', m, stats s))
      else if path = ''/stats'' then
        (let st = (stats s)\<lparr>ts := py_trunc now, mem := Some maxrss\<rparr>
         in Inr (''application/json'', json_dumps L (stats_py st), st))
      else if path = ''/json'' \<or> path = ''/all'' then
        json (json_dumps L (PDict (weather s)))
      else if path = ''/raw'' then
        json (json_dumps L (raw s))
      else if path = ''/time'' then
        json (json_dumps L (PDict [(''local_time'', PStr (fromtimestamp L now)),
                                   (''ts'', PFloat (Fin now)),
                                   (''utc'', PStr (utcfromtimestamp L now))]))
      else if path = ''/temp'' then
        bind_err (dump_fields L s [(''temperature'', ''temperature'')]) json
      else if path \<in> set [''/temperature'', ''/humidity'', ''/pressure'', ''/feels_like'', ''/app_temp''] then
        (let i = drop 1 path in bind_err (dump_fields L s [(i, i)]) json)
      else if path = ''/wind'' then
        bind_err (dump_fields L s
          [(''wind_speed'', ''wind_speed''), (''wind_deg'', ''wind_deg''),
           (''wind_gust'', ''wind_gust'')]) json
      else if path = ''/solar'' then
        bind_err (dump_fields L s [(''solar'', ''solar'')]) json
      else if path = ''/uvi'' then
        bind_err (dump_fields L s [(''uvi'', ''uvi'')]) json
      else if path = ''/indoor'' then
        bind_err (dump_fields L s
          [(''inside_temp'', ''inside_temp''), (''inside_humidity'', ''inside_humidity'')]) json
      else if path = ''/aqi'' then
        bind_err (dump_fields L s
          [(''pm25'', ''pm25''), (''pm25aqi'', ''pm25aqi''), (''pm10'', ''pm10''),
           (''pm10aqi'', ''pm10aqi''), (''co2'', ''co2'')]) json
      else if path \<in> set [''/rain'', ''/precipitation''] then
        bind_err (dump_fields L s
          [(''rain_1h'', ''rain_1h''), (''rain_3h'', ''rain_3h''), (''snow_1h'', ''snow_1h''),
           (''snow_3h'', ''snow_3h''), (''rain_24h'', ''rain_24h'')]) json
      else if path = ''/conditions'' \<or> path = ''/weather'' then
        bind_err (dump_fields L s
          [(''conditions'', ''weather_main''),
           (''weather_description'', ''weather_description''),
           (''weather_icon'', ''weather_icon'')]) json
      else
        json ''Error: Unsupported Request'')"

text \<open>The counts, lines 406 to 413.\<close>

definition count_request :: "string \<Rightarrow> string \<Rightarrow> serverstats \<Rightarrow> serverstats" where
  "count_request path message st =
     (let st1 =
        (if sublist ''Error'' message then st\<lparr>errors := errors st + 1\<rparr>
         else
           (case map_of (uri st) path of
              Some n \<Rightarrow> st\<lparr>uri := AList.update path (n + 1) (uri st)\<rparr>
            | None \<Rightarrow> st\<lparr>uri := AList.update path 1 (uri st)\<rparr>))
      in st1\<lparr>gets := gets st1 + 1\<rparr>)"

text \<open>
  What the client is sent.  \<^verbatim>\<open>self.send_response(200)\<close> comes first in \<^verbatim>\<open>do_GET\<close>, but it
  only puts the status line into the handler's header buffer; the buffer goes out with
  \<^verbatim>\<open>end_headers()\<close>, after the two \<^verbatim>\<open>send_header\<close> calls, and the body follows.  When a
  branch raises, \<^verbatim>\<open>do_GET\<close> ends there: the exception leaves the handler, nothing has
  been sent and nothing has been counted.
\<close>

record response =
  resp_status :: int
  resp_content_type :: string
  resp_content_length :: string
  resp_body :: string

datatype handled = Responded response server | Crashed error server

definition do_GET :: "pylib \<Rightarrow> config \<Rightarrow> real \<Rightarrow> int \<Rightarrow> server \<Rightarrow> string \<Rightarrow> handled" where
  "do_GET L cfg now maxrss s path =
     (case route L cfg now maxrss s path of
        Inl err \<Rightarrow> Crashed err s
      | Inr (contenttype, message, st) \<Rightarrow>
          Responded
            \<lparr>resp_status = 200, resp_content_type = contenttype,
             resp_content_length = show_nat (length message), resp_body = message\<rparr>
            (s\<lparr>stats := count_request path message st\<rparr>))"

text \<open>The response of a handled request, if one was sent.\<close>

definition sent :: "handled \<Rightarrow> response option" where
  "sent h = (case h of Responded r s \<Rightarrow> Some r | Crashed err s \<Rightarrow> None)"

section \<open>Records seen during a pass, and sample inputs\<close>

text \<open>
  \<open>wrote_one w w'\<close>: the record \<open>w'\<close> is \<open>w\<close> after one assignment \<^verbatim>\<open>weather[k] = v\<close>.
  \<open>stepwise ws\<close>: every record of the list comes from the one before it by one
  assignment.
\<close>

definition wrote_one :: "store \<Rightarrow> store \<Rightarrow> bool" where
  "wrote_one w w' = list_ex (\<lambda>kv. w' = AList.update (fst kv) (snd kv) w) w'"

fun stepwise :: "store list \<Rightarrow> bool" where
  "stepwise (w # w' # ws) = (wrote_one w w' \<and> stepwise (w' # ws))"
| "stepwise ws = True"

text \<open>\<open>writes K t t'\<close>: the trail \<open>t'\<close> is \<open>t\<close> after some assignments to keys of \<open>K\<close>.\<close>

inductive writes :: "string set \<Rightarrow> trail \<Rightarrow> trail \<Rightarrow> bool" for K where
  writes_none: "writes K t t"
| writes_more: "writes K t t' \<Longrightarrow> k \<in> K \<Longrightarrow> writes K t (assign k v t')"

text \<open>The names the three code tables can write, and all the keys a pass can write.\<close>

definition table_fields :: "string set" where
  "table_fields = snd ` set OBSERVATION_MAP \<union> snd ` set WH25_MAP \<union> snd ` set CO2_MAP"

definition pass_fields :: "string set" where
  "pass_fields = insert ''dt'' (insert ''app_temp'' table_fields)"


definition reading :: "string \<Rightarrow> string \<Rightarrow> pyval" where
  "reading i v = PDict [(''id'', PStr i), (''val'', PStr v)]"

definition stamped :: "int \<Rightarrow> store" where
  "stamped n = AList.update ''dt'' (PInt n) clearweather"

section \<open>Evaluation and control-flow lemmas\<close>

lemmas eval_defs =
  map_pass_def map_pass_with_def map_fields_def map_categories_def map_category_def
  map_observation_def map_values_def map_pair_def eval_then_def and_then_def assign_def
  caught_def assign_app_temp_def getitem_def clearweather_def app_temp_def bind_err_def
  OBSERVATION_MAP_def WH25_MAP_def CO2_MAP_def py_trunc_def records_during_def stamped_def
  reading_def

subsection \<open>Doubles within range\<close>

lemma dbl_limit_large: "1000000000 < dbl_limit"
  by (simp add: dbl_limit_def)





subsection \<open>Control flow\<close>

lemma re_sub_strip_filter: "re_sub_strip s = filter digit_or_dot s"
proof (induction s rule: re_sub_strip.induct)
  case 1
  show ?case by simp
next
  case (2 c cs)
  have drop: "filter digit_or_dot (dropWhile (\<lambda>x. \<not> digit_or_dot x) cs) = filter digit_or_dot cs"
    by (induction cs) auto
  from 2 show ?case by (simp add: drop)
qed

lemma and_then_simps:
  "and_then (Done t) f = f t" "and_then (Raised err t) f = Raised err t"
  by (simp_all add: and_then_def)

lemma eval_then_simps:
  "eval_then (Inl err) t f = Raised err t" "eval_then (Inr x) t f = f x"
  by (simp_all add: eval_then_def)

lemma caught_simps:
  "caught (Done t) = t" "caught (Raised err t) = t"
  by (simp_all add: caught_def)

lemma for_each_append:
  "for_each bd (xs @ ys) t = and_then (for_each bd xs t) (for_each bd ys)"
  by (induction xs arbitrary: t) (auto simp: and_then_def split: outcome.splits)

subsection \<open>What a pass can write\<close>

lemma writes_trans: "writes K t' t'' \<Longrightarrow> writes K t t' \<Longrightarrow> writes K t t''"
  by (induction rule: writes.induct) (auto intro: writes.intros)

lemma writes_mono: "writes K t t' \<Longrightarrow> K \<subseteq> K' \<Longrightarrow> writes K' t t'"
  by (induction rule: writes.induct) (auto intro: writes.intros)

lemma writes_assign: "k \<in> K \<Longrightarrow> writes K t (assign k v t)"
  by (auto intro: writes.intros)

lemma writes_and_then:
  assumes "writes K t (caught r)" and "\<And>t'. writes K t' (caught (f t'))"
  shows "writes K t (caught (and_then r f))"
proof (cases r)
  case (Done t')
  with assms(1) have "writes K t t'" by (simp add: caught_simps)
  with assms(2) [of t'] show ?thesis using Done by (auto simp: and_then_simps intro: writes_trans)
next
  case (Raised err t')
  with assms(1) show ?thesis by (simp add: and_then_simps)
qed

lemma writes_for_each:
  assumes "\<And>x t. writes K t (caught (bd x t))"
  shows "writes K t (caught (for_each bd xs t))"
proof (induction xs arbitrary: t)
  case Nil
  show ?case by (simp add: caught_simps writes_none)
next
  case (Cons x xs)
  show ?case by (simp, rule writes_and_then [OF assms Cons])
qed

lemma map_of_ran_in: "map_of tab k = Some f \<Longrightarrow> f \<in> snd ` set tab"
  by (metis map_of_SomeD image_eqI snd_conv)

lemma table_lookup_in: "table_lookup tab i = Inr (Some f) \<Longrightarrow> f \<in> snd ` set tab"
  by (cases i) (auto dest: map_of_ran_in)

lemma writes_map_observation:
  "writes (snd ` set OBSERVATION_MAP) t (caught (map_observation gv ob t))"
  by (auto simp: map_observation_def eval_then_def caught_def writes_none
      split: sum.splits option.splits intro!: writes_assign dest: table_lookup_in)

lemma writes_map_pair: "writes (snd ` set tab) t (caught (map_pair tab gv kv t))"
  by (auto simp: map_pair_def eval_then_def caught_def writes_none
      split: sum.splits option.splits intro!: writes_assign dest: map_of_ran_in)

lemma writes_map_values: "writes (snd ` set tab) t (caught (map_values tab gv vals t))"
  unfolding map_values_def
  by (cases "py_items vals")
     (auto simp: eval_then_simps caught_simps writes_none intro: writes_for_each writes_map_pair)

lemma writes_map_category:
  assumes "\<And>x t. writes K t (caught (bd x t))"
  shows "writes K t (caught (map_category key bd r t))"
  using writes_for_each [of K bd, OF assms]
  by (auto simp: map_category_def eval_then_def caught_def writes_none split: sum.splits)

lemma writes_map_categories: "writes table_fields t (caught (map_categories gv r t))"
  unfolding map_categories_def
  by (intro writes_and_then writes_map_category
        writes_mono [OF writes_map_observation] writes_mono [OF writes_map_values])
     (auto simp: table_fields_def)

lemma writes_assign_app_temp: "writes {''app_temp''} t (caught (assign_app_temp L t))"
  by (auto simp: assign_app_temp_def eval_then_def caught_def writes_none
      split: sum.splits intro!: writes_assign)

lemma writes_map_fields: "writes pass_fields t (caught (map_fields L gv r t))"
  unfolding map_fields_def
  by (intro writes_and_then writes_mono [OF writes_map_categories]
        writes_mono [OF writes_assign_app_temp])
     (auto simp: pass_fields_def)

lemma writes_map_pass: "writes pass_fields (clearweather, []) (map_pass_with L gv r lasttime)"
  unfolding map_pass_with_def
  by (rule writes_trans [OF writes_map_fields])
     (auto simp: pass_fields_def intro: writes_assign)

lemma writes_other_key:
  "writes K t t' \<Longrightarrow> k \<notin> K \<Longrightarrow> map_of (fst t') k = map_of (fst t) k"
  by (induction rule: writes.induct) (auto simp: assign_def update_conv')

lemma writes_new_key:
  "writes K t t' \<Longrightarrow> map_of (fst t') k \<noteq> None \<Longrightarrow> map_of (fst t) k \<noteq> None \<or> k \<in> K"
  by (induction rule: writes.induct) (auto simp: assign_def update_conv' split: if_splits)

lemma update_mem: "(k, v) \<in> set (AList.update k v w)"
  by (induction w) auto

lemma wrote_one_update: "wrote_one w (AList.update k v w)"
  unfolding wrote_one_def list_ex_iff using update_mem [of k v w] by force

lemma stepwise_snoc: "stepwise (xs @ [a]) \<Longrightarrow> wrote_one a b \<Longrightarrow> stepwise (xs @ [a, b])"
  by (induction xs rule: stepwise.induct) simp_all

lemma writes_history:
  "writes K t t' \<Longrightarrow>
     \<exists>ws. rev (snd t') @ [fst t'] = rev (snd t) @ fst t # ws \<and> stepwise (fst t # ws)
         \<and> last (fst t # ws) = fst t'"
proof (induction rule: writes.induct)
  case (writes_none a)
  show ?case by simp
next
  case (writes_more a b k v)
  then obtain ws where ws: "rev (snd b) @ [fst b] = rev (snd a) @ fst a # ws"
    "stepwise (fst a # ws)" "last (fst a # ws) = fst b" by blast
  let ?n = "AList.update k v (fst b)"
  have "rev (snd (assign k v b)) @ [fst (assign k v b)] = rev (snd a) @ fst a # (ws @ [?n])"
    using ws(1) by (simp add: assign_def)
  moreover have "stepwise (fst a # ws @ [?n])"
  proof -
    obtain ys where ys: "fst a # ws = ys @ [fst b]"
      using ws(3) by (metis append_butlast_last_id list.distinct(1))
    have "stepwise (ys @ [fst b, ?n])"
      by (rule stepwise_snoc) (use ws(2) ys wrote_one_update in auto)
    then show ?thesis using ys by (metis append.assoc append_Cons append_Nil)
  qed
  moreover have "last (fst a # ws @ [?n]) = fst (assign k v b)"
    by (simp add: assign_def)
  ultimately show ?case by blast
qed

section \<open>The cleaning function\<close>

text \<open>
  Claim C1 against the code.  The stripping works: of \<^verbatim>\<open>"21.5C"\<close> the regular expression
  leaves \<^verbatim>\<open>"21.5"\<close>.  But the stripped text is handed to \<^verbatim>\<open>round\<close> as a string, which
  raises \<^verbatim>\<open>TypeError\<close>; the value is neither parsed nor returned rounded, for the
  well-formed \<^verbatim>\<open>"21.5"\<close> as for any other string.
\<close>

theorem getval_raises_on_well_formed_value:
  "re_sub_strip ''21.5C'' = ''21.5''
   \<and> getval (PStr ''21.5C'') = Inl TypeError
   \<and> getval (PStr ''21.5'') = Inl TypeError"
  by (simp add: digit_or_dot_def)

section \<open>The record while a cycle runs\<close>

text \<open>
  Claim C2, as the code has it.  The record is not replaced as a whole.  A cycle first
  binds \<^verbatim>\<open>weather\<close> to the defaults and then assigns the fields one at a time, in place.
  The records the global holds one after the other while a cycle runs on top of the
  previous observation \<open>prev\<close> are: \<open>prev\<close>, then the defaults record, then records
  that each come from the one before by a single assignment, the last of them being
  the new observation.  The records after \<open>prev\<close> are the same whatever \<open>prev\<close> is: the
  records of a cycle are built from the defaults.  A reader that takes the record between two
  statements of the poller obtains one of this list.
\<close>

theorem records_during_pass:
  "\<exists>ws. (\<forall>prev. records_during prev (map_pass_with L gv r lasttime) = prev # clearweather # ws)
        \<and> stepwise (clearweather # ws)
        \<and> last (clearweather # ws) = fst (map_pass_with L gv r lasttime)"
  using writes_history [OF writes_map_pass, of L gv r lasttime]
  by (simp add: records_during_def)

text \<open>
  Claim C2 as stated fails.  After a cycle at time 100, a cycle at time 110 on the
  answer \<^verbatim>\<open>{}\<close> makes the global hold three records in turn: the previous observation
  (timestamp 100), the defaults record (timestamp 0), and the new observation
  (timestamp 110).  The second is neither the previous nor the new one.
\<close>

theorem observation_not_atomic_counterexample:
  "\<forall>L. records_during (stamped 100) (map_pass L (PDict []) 110)
         = [stamped 100, clearweather, stamped 110]
       \<and> clearweather \<noteq> stamped 100 \<and> clearweather \<noteq> stamped 110"
  by (simp add: eval_defs)

section \<open>The store after a cycle\<close>







section \<open>Exceptions in a category\<close>




section \<open>Properties of the apparent temperature\<close>




section \<open>The apparent temperature in the record\<close>

lemma clearweather_app_temp: "map_of clearweather ''app_temp'' = Some PNone"
  by (simp add: clearweather_def)

lemma app_temp_not_table: "''app_temp'' \<notin> insert ''dt'' table_fields"
  by (simp add: table_fields_def OBSERVATION_MAP_def WH25_MAP_def CO2_MAP_def)

lemma app_temp_None_raises:
  "T = PNone \<or> H = PNone \<or> W = PNone \<Longrightarrow> \<exists>err. app_temp L T H W = Inl err"
  by (cases "py_float L W"; cases "py_float L T"; cases "py_int L H")
     (auto simp: app_temp_def bind_err_def)

lemma before_app_temp:
  "map_of (fst (caught (map_categories gv r (assign ''dt'' v (clearweather, [])))))
     ''app_temp'' = Some PNone"
proof -
  have "writes (insert ''dt'' table_fields) (clearweather, [])
          (caught (map_categories gv r (assign ''dt'' v (clearweather, []))))"
    by (rule writes_trans [OF writes_mono [OF writes_map_categories]])
       (auto intro: writes_assign)
  from writes_other_key [OF this app_temp_not_table] show ?thesis
    by (simp add: clearweather_app_temp)
qed

lemma app_temp_stays_None:
  assumes "w = fst (map_pass_with L gv r lasttime)"
    and "getitem w ''temperature'' = Inr PNone \<or> getitem w ''humidity'' = Inr PNone
         \<or> getitem w ''wind_speed'' = Inr PNone"
  shows "getitem w ''app_temp'' = Inr PNone"
proof -
  let ?t1 = "assign ''dt'' (PInt (py_trunc lasttime)) (clearweather, [])"
  let ?c = "map_categories gv r ?t1"
  have pre: "map_of (fst (caught ?c)) ''app_temp'' = Some PNone"
    by (rule before_app_temp)
  show ?thesis
  proof (cases ?c)
    case (Raised err t)
    with pre assms(1) show ?thesis
      by (simp add: map_pass_with_def map_fields_def and_then_simps caught_simps getitem_def)
  next
    case (Done t)
    note outer = Done
    from outer pre have t: "map_of (fst t) ''app_temp'' = Some PNone" by (simp add: caught_simps)
    show ?thesis
    proof (cases "assign_app_temp L t")
      case (Raised err t')
      then have "t' = t"
        by (auto simp: assign_app_temp_def eval_then_def split: sum.splits)
      with Raised outer t assms(1) show ?thesis
        by (simp add: map_pass_with_def map_fields_def and_then_simps caught_simps getitem_def)
    next
      case (Done t')
      then obtain temp humidity wind a where
        g: "getitem (fst t) ''temperature'' = Inr temp" "getitem (fst t) ''humidity'' = Inr humidity"
           "getitem (fst t) ''wind_speed'' = Inr wind" "app_temp L temp humidity wind = Inr a"
        and t': "t' = assign ''app_temp'' (PFloat a) t"
        by (auto simp: assign_app_temp_def eval_then_def split: sum.splits)
      have w: "w = AList.update ''app_temp'' (PFloat a) (fst t)"
        using assms(1) outer Done t'
        by (simp add: map_pass_with_def map_fields_def and_then_simps caught_simps assign_def)
      from g(4) app_temp_None_raises [of temp humidity wind L]
      have "temp \<noteq> PNone \<and> humidity \<noteq> PNone \<and> wind \<noteq> PNone" by auto
      with g(1-3) assms(2) w show ?thesis
        by (auto simp: getitem_def update_conv' split: option.splits)
    qed
  qed
qed

lemma assign_app_temp_None_raises:
  assumes "getitem (fst t) ''temperature'' = Inr PNone \<or> getitem (fst t) ''humidity'' = Inr PNone
         \<or> getitem (fst t) ''wind_speed'' = Inr PNone"
  shows "\<exists>err. assign_app_temp L t = Raised err t"
proof (cases "assign_app_temp L t")
  case (Raised err t')
  then have "t' = t"
    by (auto simp: assign_app_temp_def eval_then_def split: sum.splits)
  with Raised show ?thesis by simp
next
  case (Done t')
  then obtain temp humidity wind a where
    g: "getitem (fst t) ''temperature'' = Inr temp" "getitem (fst t) ''humidity'' = Inr humidity"
       "getitem (fst t) ''wind_speed'' = Inr wind" "app_temp L temp humidity wind = Inr a"
    by (auto simp: assign_app_temp_def eval_then_def split: sum.splits)
  from g(4) app_temp_None_raises [of temp humidity wind L]
  have "temp \<noteq> PNone \<and> humidity \<noteq> PNone \<and> wind \<noteq> PNone" by auto
  with g(1-3) assms show ?thesis by auto
qed

text \<open>
  Claim C6, as the code has it.  With \<^verbatim>\<open>None\<close> for the temperature, the humidity or the
  wind speed, the call \<^verbatim>\<open>app_temp(...)\<close> does not return an absent value: it raises.  So
  does line 257 whenever one of the three fields of the record is \<^verbatim>\<open>None\<close>, leaving the
  record as it is.  The bare \<^verbatim>\<open>except\<close> of the pass catches the exception: in the record
  a pass produces, whenever one of the three fields is \<^verbatim>\<open>None\<close>, the field \<^verbatim>\<open>app_temp\<close> is
  the \<^verbatim>\<open>None\<close> that \<^verbatim>\<open>clearweather()\<close> gave it.  The last part holds for every answer of
  the device, every poll time and every cleaning function.
\<close>

theorem app_temp_absent_input_raises_and_is_caught:
  "(T = PNone \<or> H = PNone \<or> W = PNone \<longrightarrow> (\<exists>err. app_temp L T H W = Inl err))
   \<and> (getitem (fst t) ''temperature'' = Inr PNone \<or> getitem (fst t) ''humidity'' = Inr PNone
        \<or> getitem (fst t) ''wind_speed'' = Inr PNone
      \<longrightarrow> (\<exists>err. assign_app_temp L t = Raised err t))
   \<and> (getitem (fst (map_pass_with L gv r lasttime)) ''temperature'' = Inr PNone
        \<or> getitem (fst (map_pass_with L gv r lasttime)) ''humidity'' = Inr PNone
        \<or> getitem (fst (map_pass_with L gv r lasttime)) ''wind_speed'' = Inr PNone
      \<longrightarrow> getitem (fst (map_pass_with L gv r lasttime)) ''app_temp'' = Inr PNone)"
  using app_temp_None_raises [of T H W L] assign_app_temp_None_raises [of t L]
    app_temp_stays_None [OF refl, of L gv r lasttime]
  by blast

text \<open>
  The theorem at the call \<^verbatim>\<open>app_temp(None, 50, 10)\<close>, and at the answer \<^verbatim>\<open>{}\<close> polled at
  time 110: no category is present, the four loops pass, line 257 is reached with
  three \<^verbatim>\<open>None\<close> values and raises \<^verbatim>\<open>TypeError\<close>, and the record keeps \<^verbatim>\<open>app_temp = None\<close>.
\<close>

theorem app_temp_absent_input_raises_and_is_caught_witness:
  "\<forall>L. app_temp L PNone (PInt 50) (PInt 10) = Inl TypeError
     \<and> getitem (fst (stamped 110, [clearweather])) ''temperature'' = Inr PNone
     \<and> assign_app_temp L (stamped 110, [clearweather]) = Raised TypeError (stamped 110, [clearweather])
     \<and> map_categories getval (PDict []) (assign ''dt'' (PInt (py_trunc 110)) (clearweather, []))
         = Done (stamped 110, [clearweather])
     \<and> getitem (fst (map_pass_with L getval (PDict []) 110)) ''temperature'' = Inr PNone
     \<and> getitem (fst (map_pass_with L getval (PDict []) 110)) ''app_temp'' = Inr PNone"
proof
  fix L
  let ?t = "(stamped 110, [clearweather])"
  let ?w = "fst (map_pass_with L getval (PDict []) 110)"
  have a: "(PNone :: pyval) = PNone \<or> PInt 50 = PNone \<or> PInt 10 = PNone" by simp
  have b: "getitem (fst ?t) ''temperature'' = Inr PNone" by (simp add: eval_defs)
  then have b': "getitem (fst ?t) ''temperature'' = Inr PNone \<or> getitem (fst ?t) ''humidity'' = Inr PNone
        \<or> getitem (fst ?t) ''wind_speed'' = Inr PNone" by simp
  have c: "getitem ?w ''temperature'' = Inr PNone" by (simp add: eval_defs)
  then have c': "getitem ?w ''temperature'' = Inr PNone \<or> getitem ?w ''humidity'' = Inr PNone
        \<or> getitem ?w ''wind_speed'' = Inr PNone" by simp
  have d: "map_categories getval (PDict []) (assign ''dt'' (PInt (py_trunc 110)) (clearweather, []))
         = Done ?t" by (simp add: eval_defs)
  have e: "app_temp L PNone (PInt 50) (PInt 10) = Inl TypeError"
    using dbl_limit_large by (simp add: app_temp_def bind_err_def)
  have f: "assign_app_temp L ?t = Raised TypeError ?t" by (simp add: eval_defs)
  from app_temp_absent_input_raises_and_is_caught
    [of PNone "PInt 50" "PInt 10" L ?t getval "PDict []" 110] a b' c'
  have "getitem ?w ''app_temp'' = Inr PNone" by blast
  with b c d e f show "app_temp L PNone (PInt 50) (PInt 10) = Inl TypeError
     \<and> getitem (fst ?t) ''temperature'' = Inr PNone
     \<and> assign_app_temp L ?t = Raised TypeError ?t
     \<and> map_categories getval (PDict []) (assign ''dt'' (PInt (py_trunc 110)) (clearweather, []))
         = Done ?t
     \<and> getitem ?w ''temperature'' = Inr PNone
     \<and> getitem ?w ''app_temp'' = Inr PNone"
    by blast
qed

text \<open>
  Claim C6 as stated fails: computing the apparent temperature with a \<^verbatim>\<open>None\<close> input
  gives an exception, not an absent value.  Each of the three calls with one \<^verbatim>\<open>None\<close>
  argument raises \<^verbatim>\<open>TypeError\<close>, and for the answer \<^verbatim>\<open>{}\<close> line 257 of the pass raises
  \<^verbatim>\<open>TypeError\<close>.
\<close>

theorem app_temp_raises_on_None_counterexample:
  "\<forall>L. app_temp L PNone (PInt 50) (PInt 10) = Inl TypeError
     \<and> app_temp L (PInt 20) PNone (PInt 10) = Inl TypeError
     \<and> app_temp L (PInt 20) (PInt 50) PNone = Inl TypeError
     \<and> map_categories getval (PDict []) (assign ''dt'' (PInt (py_trunc 110)) (clearweather, []))
         = Done (stamped 110, [clearweather])
     \<and> assign_app_temp L (stamped 110, [clearweather]) = Raised TypeError (stamped 110, [clearweather])"
  using dbl_limit_large by (simp add: eval_defs)

section \<open>Requests\<close>

lemma sublist_Error: "sublist ''Error'' ''Error: Unsupported Request''"
  by code_simp

text \<open>
  Claim C7, as the code has it.  For a path that the handler's chain does not name, the
  response has status 200, content type \<^verbatim>\<open>application/json\<close> and the body
  \<^verbatim>\<open>Error: Unsupported Request\<close> with its length, 26.  The counter of errors and the
  counter of requests grow by one; the per-path counters are left as they were,
  because a message that contains \<^verbatim>\<open>Error\<close> takes the first branch of the count and the
  per-path count is the other branch.
\<close>

theorem unknown_path_counts:
  assumes "path \<notin> set routes"
  shows "do_GET L cfg now maxrss s path =
     Responded
       \<lparr>resp_status = 200, resp_content_type = ''application/json'',
        resp_content_length = ''26'', resp_body = ''Error: Unsupported Request''\<rparr>
       (s\<lparr>stats := (stats s)\<lparr>errors := errors (stats s) + 1, gets := gets (stats s) + 1\<rparr>\<rparr>)"
proof -
  from assms have r: "route L cfg now maxrss s path
    = Inr (''application/json'', ''Error: Unsupported Request'', stats s)"
    by (simp add: route_def routes_def)
  have n: "show_nat (length ''Error: Unsupported Request'') = ''26''"
    by code_simp
  have c: "count_request path ''Error: Unsupported Request'' (stats s)
    = (stats s)\<lparr>errors := errors (stats s) + 1, gets := gets (stats s) + 1\<rparr>"
    by (simp add: count_request_def sublist_Error)
  show ?thesis
    by (simp only: do_GET_def r sum.case prod.case n c)
qed

text \<open>The theorem at the path \<^verbatim>\<open>/nonexistent\<close>, requested first after the module was
  loaded.\<close>

theorem unknown_path_counts_witness:
  "\<forall>L cfg now maxrss. ''/nonexistent'' \<notin> set routes
     \<and> do_GET L cfg now maxrss (loaded_module 0) ''/nonexistent'' =
        Responded
          \<lparr>resp_status = 200, resp_content_type = ''application/json'',
           resp_content_length = ''26'', resp_body = ''Error: Unsupported Request''\<rparr>
          ((loaded_module 0)\<lparr>stats := (stats (loaded_module 0))\<lparr>errors := 1, gets := 1\<rparr>\<rparr>)"
proof (intro allI)
  fix L cfg now maxrss
  have h: "''/nonexistent'' \<notin> set routes" by (simp add: routes_def)
  from unknown_path_counts [OF h, of L cfg now maxrss "loaded_module 0"] h
  show "''/nonexistent'' \<notin> set routes
     \<and> do_GET L cfg now maxrss (loaded_module 0) ''/nonexistent'' =
        Responded
          \<lparr>resp_status = 200, resp_content_type = ''application/json'',
           resp_content_length = ''26'', resp_body = ''Error: Unsupported Request''\<rparr>
          ((loaded_module 0)\<lparr>stats := (stats (loaded_module 0))\<lparr>errors := 1, gets := 1\<rparr>\<rparr>)"
    by (simp add: loaded_module_def)
qed

text \<open>
  Claim C7 as stated fails.  After \<^verbatim>\<open>/nonexistent\<close> has been requested from the freshly
  loaded module, \<^verbatim>\<open>serverstats["uri"]\<close> is still empty: there is no per-path counter for
  the path.
\<close>

theorem unknown_path_not_counted_counterexample:
  "\<forall>L cfg now maxrss. \<exists>r s'.
     do_GET L cfg now maxrss (loaded_module 0) ''/nonexistent'' = Responded r s'
     \<and> map_of (uri (stats s')) ''/nonexistent'' = None \<and> uri (stats s') = []"
  by (simp add: do_GET_def route_def count_request_def sublist_Error loaded_module_def
      del: show_nat.simps)

lemma getitem_cases: "getitem w k = Inl KeyError \<or> (\<exists>v. getitem w k = Inr v)"
  by (simp add: getitem_def split: option.splits)

lemma lookups_missing:
  "kk \<in> set keys \<Longrightarrow> map_of w (snd kk) = None \<Longrightarrow> lookups w keys = Inl KeyError"
proof (induction keys)
  case Nil
  then show ?case by simp
next
  case (Cons a keys)
  show ?case
  proof (cases "getitem w (snd a)")
    case (Inl e)
    with getitem_cases [of w "snd a"] show ?thesis by (simp add: bind_err_def)
  next
    case (Inr v)
    with Cons.prems have "kk \<in> set keys" by (auto simp: getitem_def)
    with Cons have "lookups w keys = Inl KeyError" by simp
    with Inr show ?thesis by (simp add: bind_err_def)
  qed
qed

lemma pass_never_has_rain_3h: "map_of (fst (map_pass_with L gv r lasttime)) ''rain_3h'' = None"
proof (rule ccontr)
  assume "map_of (fst (map_pass_with L gv r lasttime)) ''rain_3h'' \<noteq> None"
  from writes_new_key [OF writes_map_pass this]
  show False
    by (simp add: clearweather_def pass_fields_def table_fields_def OBSERVATION_MAP_def
        WH25_MAP_def CO2_MAP_def)
qed

lemma rain_crashes:
  assumes "map_of (weather s) ''rain_3h'' = None" and "path = ''/rain'' \<or> path = ''/precipitation''"
  shows "do_GET L cfg now maxrss s path = Crashed KeyError s"
proof -
  have "lookups (weather s)
          [(''rain_1h'', ''rain_1h''), (''rain_3h'', ''rain_3h''), (''snow_1h'', ''snow_1h''),
           (''snow_3h'', ''snow_3h''), (''rain_24h'', ''rain_24h'')] = Inl KeyError"
    by (rule lookups_missing [of "(''rain_3h'', ''rain_3h'')"]) (use assms(1) in auto)
  with assms(2) have "route L cfg now maxrss s path = Inl KeyError"
    by (auto simp: route_def dump_fields_def bind_err_def)
  then show ?thesis by (simp add: do_GET_def)
qed

text \<open>
  Claim C8 against the code.  The branch of \<^verbatim>\<open>/rain\<close> and \<^verbatim>\<open>/precipitation\<close> reads
  \<^verbatim>\<open>weather['rain_3h']\<close>, a key that \<^verbatim>\<open>clearweather()\<close> does not create and that no code
  table writes.  Whether the record is the defaults or the result of a mapping pass,
  with any cleaning function, the lookup raises \<^verbatim>\<open>KeyError\<close>: the handler ends without
  a response and without counting the request.
\<close>

theorem rain_request_raises_KeyError:
  "do_GET L cfg now maxrss (s\<lparr>weather := fst (map_pass_with L' gv r lasttime)\<rparr>) ''/rain''
     = Crashed KeyError (s\<lparr>weather := fst (map_pass_with L' gv r lasttime)\<rparr>)
   \<and> do_GET L cfg now maxrss (s\<lparr>weather := fst (map_pass_with L' gv r lasttime)\<rparr>) ''/precipitation''
     = Crashed KeyError (s\<lparr>weather := fst (map_pass_with L' gv r lasttime)\<rparr>)
   \<and> do_GET L cfg now maxrss (s\<lparr>weather := clearweather\<rparr>) ''/rain''
     = Crashed KeyError (s\<lparr>weather := clearweather\<rparr>)
   \<and> do_GET L cfg now maxrss (s\<lparr>weather := clearweather\<rparr>) ''/precipitation''
     = Crashed KeyError (s\<lparr>weather := clearweather\<rparr>)"
  by (intro conjI rain_crashes) (simp_all add: pass_never_has_rain_3h clearweather_def)

text \<open>
  Claim C10 against the code.  On the four paths whose branch reads a key that the
  record does not have (\<^verbatim>\<open>/rain\<close>, \<^verbatim>\<open>/precipitation\<close>, \<^verbatim>\<open>/conditions\<close>, \<^verbatim>\<open>/weather\<close>) the
  handler raises after \<^verbatim>\<open>send_response(200)\<close> has buffered the status line and before
  \<^verbatim>\<open>end_headers()\<close> sends it: the client is sent no response, hence no status 200.
\<close>

theorem rain_request_sends_no_status:
  "sent (do_GET L cfg now maxrss (loaded_module 0) ''/rain'') = None
   \<and> sent (do_GET L cfg now maxrss (loaded_module 0) ''/precipitation'') = None
   \<and> sent (do_GET L cfg now maxrss (loaded_module 0) ''/conditions'') = None
   \<and> sent (do_GET L cfg now maxrss (loaded_module 0) ''/weather'') = None"
  by (simp add: sent_def do_GET_def route_def dump_fields_def bind_err_def getitem_def
      loaded_module_def clearweather_def)

section \<open>The fetch\<close>

text \<open>
  Claim C9 against the code.  \<^verbatim>\<open>requests.get(URL)\<close> is called without a timeout; the
  value \<^verbatim>\<open>TIMEOUT\<close> read from the configuration is not passed to it.  With a device
  that accepts the connection and never answers, the call, and with it the cycle,
  does not return.
\<close>

theorem fetch_without_timeout_never_returns:
  "call_timeout (fetch_call cfg) = None
   \<and> requests_get Silent (fetch_call cfg) = Hangs
   \<and> poll_cycle L cfg Silent sink currentts lasttime s = None"
  by (simp add: fetch_call_def requests_get_def poll_cycle_def)

section \<open>Further facts about the program\<close>

text \<open>
  \<^verbatim>\<open>getval\<close> returns for no input: \<^verbatim>\<open>re.sub\<close> raises on what is not a string, and
  \<^verbatim>\<open>round\<close> raises on the string \<^verbatim>\<open>re.sub\<close> returns.
\<close>

lemma getval_always_raises: "getval v = Inl TypeError"
  by (cases v) simp_all

lemma caught_and_then_same:
  assumes "caught r = t" and "\<And>t'. caught (f t') = t'"
  shows "caught (and_then r f) = t"
  using assms by (cases r) (simp_all add: and_then_simps caught_simps)

lemma for_each_same:
  assumes "\<And>x t. caught (bd x t) = t"
  shows "caught (for_each bd xs t) = t"
proof (induction xs arbitrary: t)
  case Nil
  show ?case by (simp add: caught_simps)
next
  case (Cons x xs)
  show ?case by (simp, rule caught_and_then_same [OF assms Cons])
qed

lemma map_observation_same: "caught (map_observation getval ob t) = t"
  by (simp add: map_observation_def eval_then_def caught_def getval_always_raises
      split: sum.splits option.splits)

lemma map_pair_same: "caught (map_pair tab getval kv t) = t"
  by (simp add: map_pair_def eval_then_def caught_def getval_always_raises
      split: sum.splits option.splits)

lemma map_values_same: "caught (map_values tab getval vals t) = t"
  using for_each_same [of "map_pair tab getval", OF map_pair_same]
  by (simp add: map_values_def eval_then_def caught_def split: sum.splits)

lemma map_category_same:
  assumes "\<And>x t. caught (bd x t) = t"
  shows "caught (map_category key bd r t) = t"
  using for_each_same [of bd, OF assms]
  by (simp add: map_category_def eval_then_def caught_def split: sum.splits)

lemma map_categories_same: "caught (map_categories getval r t) = t"
  unfolding map_categories_def
  by (intro caught_and_then_same map_category_same map_observation_same map_values_same)

text \<open>
  Hence, with the program's \<^verbatim>\<open>getval\<close>, a pass assigns the timestamp and nothing else,
  whatever the device answered: no category writes a field, and the apparent
  temperature is asked of three \<^verbatim>\<open>None\<close> values.
\<close>

lemma map_pass_only_timestamp:
  "map_pass L r lasttime = (stamped (py_trunc lasttime), [clearweather])"
proof -
  let ?t1 = "(stamped (py_trunc lasttime), [clearweather])"
  have a: "assign ''dt'' (PInt (py_trunc lasttime)) (clearweather, []) = ?t1"
    by (simp add: assign_def stamped_def)
  have b: "caught (assign_app_temp L ?t1) = ?t1"
    by (simp add: assign_app_temp_def eval_then_def caught_def getitem_def stamped_def
        clearweather_def app_temp_def bind_err_def)
  have "caught (map_fields L getval r ?t1) = ?t1"
    unfolding map_fields_def
  proof (cases "map_categories getval r ?t1")
    case (Done t')
    with map_categories_same [of r ?t1] have "t' = ?t1" by (simp add: caught_simps)
    with Done b show "caught (and_then (map_categories getval r ?t1) (assign_app_temp L)) = ?t1"
      by (simp add: and_then_simps)
  next
    case (Raised err t')
    with map_categories_same [of r ?t1] have "t' = ?t1" by (simp add: caught_simps)
    with Raised show "caught (and_then (map_categories getval r ?t1) (assign_app_temp L)) = ?t1"
      by (simp add: and_then_simps caught_simps)
  qed
  then show ?thesis by (simp add: map_pass_def map_pass_with_def a)
qed

text \<open>Every response that is sent has status 200 and a \<^verbatim>\<open>Content-Length\<close> that is the
  length of its message.\<close>

lemma status_of_sent:
  "sent (do_GET L cfg now maxrss s path) = Some resp \<Longrightarrow> resp_status resp = 200"
  by (auto simp: sent_def do_GET_def split: sum.splits prod.splits)

lemma length_of_sent:
  "sent (do_GET L cfg now maxrss s path) = Some resp
     \<Longrightarrow> resp_content_length resp = show_nat (length (resp_body resp))"
  by (auto simp: sent_def do_GET_def split: sum.splits prod.splits simp del: show_nat.simps)

end
